theory Spec2Isabelle
  imports Complex_Main "HOL-Library.AList" "HOL-Library.Char_ord" "HOL-Library.List_Lexorder"
begin

section \<open>Scope and conventions\<close>

text \<open>
  This theory embeds the metrics core of the dashboard: the two parsers of the Prometheus
  exposition format (\<open>parsePrometheusMetrics\<close> of the dashboard and
  \<open>parsePrometheusMetricsWithMetadata\<close> of the explorer), the discovery of metric kinds,
  the aggregations \<open>computeHistogramData\<close>, \<open>computeCounterBreakdown\<close> and the summary
  branch of \<open>computeWidgetData\<close>, and the bounded snapshot history.

  The program is JavaScript, so the values it computes with are modelled first. Three
  conventions hold throughout.
  \<^item> A string is a list of code units; the model covers the code units below 256, which
    \<^typ>\<open>char\<close> represents one to one.
  \<^item> A finite number is the rational it stands for: arithmetic on finite numbers is exact,
    rounding to the nearest double, overflow to infinity and the sign of zero are not
    modelled. The two infinities and NaN are values of their own and follow IEEE 754.
  \<^item> An object used as a dictionary is the association list of its own properties in
    insertion order. Property names that every object inherits (such as
    \<open>constructor\<close> or \<open>__proto__\<close>) are not modelled as keys, and neither is a group key
    that coincides with a fixed field of a result row.
\<close>

section \<open>JavaScript values\<close>

subsection \<open>Strings\<close>

text \<open>
  The three characters that cannot be written inside a string literal here: the double
  quote, the backslash and the line feed.
\<close>

abbreviation dquote :: char where "dquote \<equiv> CHR 0x22"
abbreviation backslash :: char where "backslash \<equiv> CHR 0x5C"
abbreviation newline :: char where "newline \<equiv> CHR 0x0A"

text \<open>
  \<open>is_space\<close> is the class \<open>\s\<close> of regular expressions, which is also what
  \<open>String.prototype.trim\<close> and \<open>parseFloat\<close> skip: tab, line feed, vertical tab, form
  feed, carriage return, space and no-break space. \<open>is_line_terminator\<close> is what the
  pattern \<open>.\<close> refuses.
\<close>

definition is_space :: "char \<Rightarrow> bool" where
  "is_space c \<longleftrightarrow>
     c \<in> set [CHR 0x09, CHR 0x0A, CHR 0x0B, CHR 0x0C, CHR 0x0D, CHR 0x20, CHR 0xA0]"

definition is_line_terminator :: "char \<Rightarrow> bool" where
  "is_line_terminator c \<longleftrightarrow> c = CHR 0x0A \<or> c = CHR 0x0D"

definition is_digit :: "char \<Rightarrow> bool" where
  "is_digit c \<longleftrightarrow> c \<in> set ''0123456789''"

definition is_alpha :: "char \<Rightarrow> bool" where
  "is_alpha c \<longleftrightarrow> c \<in> set ''abcdefghijklmnopqrstuvwxyzABCDEFGHIJKLMNOPQRSTUVWXYZ''"

text \<open>\<open>line.trim()\<close>: white space is removed at both ends.\<close>

definition trim :: "string \<Rightarrow> string" where
  "trim s = rev (dropWhile is_space (rev (dropWhile is_space s)))"

text \<open>
  \<open>text.split('\n')\<close>: the pieces between line feeds, so a text with \<open>n\<close> line feeds has
  \<open>n + 1\<close> lines and the empty text has one empty line.
\<close>

fun split_nl :: "string \<Rightarrow> string list" where
  "split_nl [] = [[]]"
| "split_nl (c # cs) =
     (if c = newline then [] # split_nl cs
      else (case split_nl cs of [] \<Rightarrow> [[c]] | l # ls \<Rightarrow> (c # l) # ls))"

text \<open>
  \<open>startsWith\<close> and \<open>endsWith\<close>; \<open>replace\<close> with a string pattern, which replaces
  the first occurrence only; and \<open>replaceAll\<close>, which scans from the left and continues
  after each replacement.
\<close>

definition startsWith :: "string \<Rightarrow> string \<Rightarrow> bool" where
  "startsWith s p \<longleftrightarrow> take (length p) s = p"

definition endsWith :: "string \<Rightarrow> string \<Rightarrow> bool" where
  "endsWith s p \<longleftrightarrow> length p \<le> length s \<and> drop (length s - length p) s = p"

fun replace_first :: "string \<Rightarrow> string \<Rightarrow> string \<Rightarrow> string" where
  "replace_first [] pat rep = (if pat = [] then rep else [])"
| "replace_first (c # cs) pat rep =
     (if take (length pat) (c # cs) = pat then rep @ drop (length pat) (c # cs)
      else c # replace_first cs pat rep)"

function replaceAll :: "string \<Rightarrow> string \<Rightarrow> string \<Rightarrow> string" where
  "replaceAll s pat rep =
     (if s = [] \<or> pat = [] then s
      else if take (length pat) s = pat then rep @ replaceAll (drop (length pat) s) pat rep
      else hd s # replaceAll (tl s) pat rep)"
  by pat_completeness auto
termination
  by (relation "measure (\<lambda>(s, pat, rep). length s)") (auto simp: neq_Nil_conv)

declare replaceAll.simps [simp del]

subsection \<open>Numbers\<close>

text \<open>
  Numbers with the operations the program uses: negation, \<open>+\<close>, \<open>-\<close>, \<open><\<close>, \<open>>\<close>,
  \<open>*\<close>, \<open>/\<close>, \<open>Math.max\<close> and \<open>Number.isFinite\<close>. A comparison with NaN is false, and
  \<open>Math.max\<close> of a NaN is NaN.
\<close>

datatype jsnum = Fin rat | PInf | NInf | NaN

fun js_neg :: "jsnum \<Rightarrow> jsnum" where
  "js_neg (Fin r) = Fin (- r)"
| "js_neg PInf = NInf"
| "js_neg NInf = PInf"
| "js_neg NaN = NaN"

fun js_add :: "jsnum \<Rightarrow> jsnum \<Rightarrow> jsnum" where
  "js_add (Fin a) (Fin b) = Fin (a + b)"
| "js_add NaN _ = NaN"
| "js_add _ NaN = NaN"
| "js_add PInf NInf = NaN"
| "js_add NInf PInf = NaN"
| "js_add PInf _ = PInf"
| "js_add _ PInf = PInf"
| "js_add NInf _ = NInf"
| "js_add _ NInf = NInf"

definition js_sub :: "jsnum \<Rightarrow> jsnum \<Rightarrow> jsnum" where
  "js_sub a b = js_add a (js_neg b)"

fun js_lt :: "jsnum \<Rightarrow> jsnum \<Rightarrow> bool" where
  "js_lt (Fin a) (Fin b) = (a < b)"
| "js_lt NaN _ = False"
| "js_lt _ NaN = False"
| "js_lt NInf NInf = False"
| "js_lt NInf _ = True"
| "js_lt _ NInf = False"
| "js_lt PInf _ = False"
| "js_lt _ PInf = True"

definition js_gt :: "jsnum \<Rightarrow> jsnum \<Rightarrow> bool" where
  "js_gt a b = js_lt b a"



definition js_max :: "jsnum \<Rightarrow> jsnum \<Rightarrow> jsnum" where
  "js_max a b = (if a = NaN \<or> b = NaN then NaN else if js_lt a b then b else a)"


text \<open>
  \<open>x || 0\<close> for a property that may be absent: \<open>undefined\<close>, 0 and NaN are falsy and
  give 0, every other number gives itself.
\<close>

definition or0 :: "jsnum option \<Rightarrow> jsnum" where
  "or0 x = (case x of None \<Rightarrow> Fin 0 | Some v \<Rightarrow> if v = Fin 0 \<or> v = NaN then Fin 0 else v)"

text \<open>
  \<open>Array.prototype.sort\<close> with a comparator. The sort is stable, and an element \<open>y\<close>
  comes before \<open>x\<close> exactly when the comparator gives a negative number for \<open>(y, x)\<close>;
  a NaN from the comparator counts as 0. Insertion from the right end is one stable sort;
  every stable sort gives the same result when the comparator is consistent, which the
  language requires for the order to be defined at all. The theorems below that speak about
  the order assume keys that are not NaN, which makes the comparators used here consistent.
\<close>

fun insort_by :: "('a \<Rightarrow> 'a \<Rightarrow> jsnum) \<Rightarrow> 'a \<Rightarrow> 'a list \<Rightarrow> 'a list" where
  "insort_by cmp x [] = [x]"
| "insort_by cmp x (y # ys) =
     (if js_lt (cmp y x) (Fin 0) then y # insort_by cmp x ys else x # y # ys)"

definition js_sort :: "('a \<Rightarrow> 'a \<Rightarrow> jsnum) \<Rightarrow> 'a list \<Rightarrow> 'a list" where
  "js_sort cmp xs = foldr (insort_by cmp) xs []"

text \<open>
  \<open>Number.parseFloat\<close>: leading white space is skipped, then the longest prefix that is a
  decimal literal is read (an optional sign, then \<open>Infinity\<close> or digits with an optional
  fraction and an optional complete exponent part); NaN when there is no such prefix.
\<close>

definition digit_val :: "char \<Rightarrow> int" where
  "digit_val c = of_char c - 48"

definition int_of_digits :: "string \<Rightarrow> int" where
  "int_of_digits ds = foldl (\<lambda>n c. 10 * n + digit_val c) 0 ds"

definition pow10 :: "int \<Rightarrow> rat" where
  "pow10 e = (if 0 \<le> e then 10 ^ nat e else 1 / 10 ^ nat (- e))"

definition parse_exponent :: "string \<Rightarrow> int" where
  "parse_exponent s =
     (case s of
        [] \<Rightarrow> 0
      | c # r \<Rightarrow>
          if c = CHR ''e'' \<or> c = CHR ''E'' then
            (let (sgn, ds) =
                   (case r of
                      [] \<Rightarrow> (1, r)
                    | d # t \<Rightarrow>
                        if d = CHR ''+'' then (1, t)
                        else if d = CHR ''-'' then (- 1, t)
                        else (1, r));
                 digs = takeWhile is_digit ds
             in if digs = [] then 0 else sgn * int_of_digits digs)
          else 0)"

definition parse_unsigned :: "string \<Rightarrow> jsnum" where
  "parse_unsigned u =
     (if take 8 u = ''Infinity'' then PInf
      else
        let ip = takeWhile is_digit u;
            r1 = dropWhile is_digit u;
            (fp, r2) =
              (case r1 of
                 [] \<Rightarrow> ([], r1)
               | c # r \<Rightarrow>
                   if c = CHR ''.'' then (takeWhile is_digit r, dropWhile is_digit r)
                   else ([], r1))
        in if ip = [] \<and> fp = [] then NaN
           else Fin ((of_int (int_of_digits ip) + of_int (int_of_digits fp) / 10 ^ length fp)
                       * pow10 (parse_exponent r2)))"

definition parseFloat :: "string \<Rightarrow> jsnum" where
  "parseFloat s =
     (case dropWhile is_space s of
        [] \<Rightarrow> NaN
      | c # r \<Rightarrow>
          if c = CHR ''+'' then parse_unsigned r
          else if c = CHR ''-'' then js_neg (parse_unsigned r)
          else parse_unsigned (c # r))"


subsection \<open>Number to string\<close>

text \<open>
  \<open>Number.prototype.toString\<close>. For a positive number with the decimal digits \<open>s\<close> (no
  trailing zero, \<open>k\<close> digits) and the value \<open>s \<times> 10\<^sup>n\<^sup>-\<^sup>k\<close>, the standard prints the
  digits followed by zeros when \<open>k \<le> n \<le> 21\<close>, with a decimal point inside when
  \<open>0 < n \<le> 21\<close>, after \<open>0.\<close> and zeros when \<open>-6 < n \<le> 0\<close>, and in exponent notation
  otherwise. \<open>decimal_of\<close> computes \<open>s\<close> and the exponent of a rational with a finite
  decimal expansion, which is what every result of \<open>parseFloat\<close> and its multiples are;
  a rational without one is cut after 17 decimal places and is never printed by the
  functions modelled here.
\<close>

definition digit_char :: "int \<Rightarrow> char" where
  "digit_char d = char_of (48 + d)"

function int_digits :: "int \<Rightarrow> string" where
  "int_digits n =
     (if n < 10 then [digit_char n] else int_digits (n div 10) @ [digit_char (n mod 10)])"
  by pat_completeness auto
termination
  by (relation "measure nat") auto

declare int_digits.simps [simp del]

function multiplicity_in :: "int \<Rightarrow> int \<Rightarrow> nat" where
  "multiplicity_in p n =
     (if p < 2 \<or> n \<le> 0 \<or> n mod p \<noteq> 0 then 0 else Suc (multiplicity_in p (n div p)))"
  by pat_completeness auto
termination
  by (relation "measure (\<lambda>(p, n). nat n)") (auto simp: int_div_less_self)

declare multiplicity_in.simps [simp del]

function strip_zeros :: "int \<Rightarrow> int \<times> nat" where
  "strip_zeros m =
     (if m \<le> 0 \<or> m mod 10 \<noteq> 0 then (m, 0)
      else (let (s, z) = strip_zeros (m div 10) in (s, Suc z)))"
  by pat_completeness auto
termination
  by (relation "measure nat") auto

declare strip_zeros.simps [simp del]

definition decimal_of :: "rat \<Rightarrow> int \<times> int" where
  "decimal_of r =
     (let (a, b) = quotient_of r;
          c2 = multiplicity_in 2 b;
          c5 = multiplicity_in 5 b;
          f = (if b = 2 ^ c2 * 5 ^ c5 then max c2 c5 else 17);
          (s, z) = strip_zeros ((a * 10 ^ f) div b)
      in (s, int z - int f))"

definition positive_toString :: "rat \<Rightarrow> string" where
  "positive_toString r =
     (let (s, e) = decimal_of r;
          ds = int_digits s;
          k = int (length ds);
          n = k + e
      in if k \<le> n \<and> n \<le> 21 then ds @ replicate (nat (n - k)) (CHR ''0'')
         else if 0 < n \<and> n \<le> 21 then take (nat n) ds @ ''.'' @ drop (nat n) ds
         else if - 6 < n \<and> n \<le> 0 then ''0.'' @ replicate (nat (- n)) (CHR ''0'') @ ds
         else
           (let ex = (if n - 1 < 0 then ''-'' else ''+'') @ int_digits (abs (n - 1))
            in if k = 1 then ds @ ''e'' @ ex
               else take 1 ds @ ''.'' @ drop 1 ds @ ''e'' @ ex))"

fun num_toString :: "jsnum \<Rightarrow> string" where
  "num_toString (Fin r) =
     (if r = 0 then ''0''
      else if r < 0 then ''-'' @ positive_toString (- r)
      else positive_toString r)"
| "num_toString PInf = ''Infinity''"
| "num_toString NInf = ''-Infinity''"
| "num_toString NaN = ''NaN''"



subsection \<open>Objects and sets\<close>

text \<open>
  \<open>Object.keys\<close> and \<open>Object.entries\<close> list the keys that are array indices first, in
  ascending numeric order, then the other keys in insertion order. \<open>set_add\<close> is
  \<open>Set.prototype.add\<close> followed by \<open>Array.from\<close>: insertion order without duplicates.
\<close>

definition is_array_index :: "string \<Rightarrow> bool" where
  "is_array_index k \<longleftrightarrow>
     k \<noteq> [] \<and> list_all is_digit k \<and> (k = ''0'' \<or> hd k \<noteq> CHR ''0'')
       \<and> int_of_digits k < 4294967295"

definition js_entries :: "(string \<times> 'v) list \<Rightarrow> (string \<times> 'v) list" where
  "js_entries obj =
     sort_key (\<lambda>kv. int_of_digits (fst kv)) (filter (\<lambda>kv. is_array_index (fst kv)) obj)
       @ filter (\<lambda>kv. \<not> is_array_index (fst kv)) obj"

definition js_keys :: "(string \<times> 'v) list \<Rightarrow> string list" where
  "js_keys obj = map fst (js_entries obj)"

definition set_add :: "'a list \<Rightarrow> 'a \<Rightarrow> 'a list" where
  "set_add xs x = (if x \<in> set xs then xs else xs @ [x])"

section \<open>Exposition parser\<close>

text \<open>
  A sample is \<open>{ labels, value }\<close>; the snapshot is a \<open>Map\<close> from the metric name to the
  array of its samples, in insertion order.
\<close>

record sample =
  labels :: "(string \<times> string) list"
  "value" :: jsnum

type_synonym metrics = "(string \<times> sample list) list"

text \<open>
  The character classes of the data pattern
  \<^verbatim>\<open>^([a-zA-Z_:][a-zA-Z0-9_:]*)(?:\{([^}]*)\})?\s+([0-9eE.+\-NaNInf]+)(?:\s+([0-9]+))?$\<close>
  and of the label pattern \<^verbatim>\<open>([a-zA-Z_][a-zA-Z0-9_]*)="((?:[^"\\]|\\.)*)"\<close>.
\<close>

definition is_name_start :: "char \<Rightarrow> bool" where
  "is_name_start c \<longleftrightarrow> is_alpha c \<or> c = CHR ''_'' \<or> c = CHR '':''"

definition is_name_char :: "char \<Rightarrow> bool" where
  "is_name_char c \<longleftrightarrow> is_name_start c \<or> is_digit c"

definition is_label_start :: "char \<Rightarrow> bool" where
  "is_label_start c \<longleftrightarrow> is_alpha c \<or> c = CHR ''_''"

definition is_label_char :: "char \<Rightarrow> bool" where
  "is_label_char c \<longleftrightarrow> is_label_start c \<or> is_digit c"

definition is_value_char :: "char \<Rightarrow> bool" where
  "is_value_char c \<longleftrightarrow> is_digit c \<or> c \<in> set ''eE.+-NaNInf''"

definition not_rbrace :: "char \<Rightarrow> bool" where
  "not_rbrace c \<longleftrightarrow> c \<noteq> CHR ''}''"

text \<open>
  The data pattern is matched against the whole trimmed line. Each of its parts is a greedy
  repetition of a character class followed by a character outside that class, so
  backtracking never finds a second way to match and every part takes the longest run:
  \<open>match_value_tail\<close> is the part from the white space before the value to the end
  (value, optional white space and timestamp digits, end of input), \<open>match_label_block\<close>
  the optional \<^verbatim>\<open>{...}\<close> (skipped when there is no closing brace, after which the white
  space fails to match at the opening brace), and \<open>match_data\<close> the whole pattern with
  its captures: name, label string (absent when the block is), value string.
\<close>

definition match_value_tail :: "string \<Rightarrow> string option" where
  "match_value_tail r1 =
     (let r2 = dropWhile is_space r1;
          valueStr = takeWhile is_value_char r2;
          r3 = dropWhile is_value_char r2;
          r4 = dropWhile is_space r3
      in if takeWhile is_space r1 = [] \<or> valueStr = [] then None
         else if r3 = [] then Some valueStr
         else if takeWhile is_space r3 \<noteq> [] \<and> takeWhile is_digit r4 \<noteq> []
                 \<and> dropWhile is_digit r4 = []
         then Some valueStr
         else None)"

definition match_label_block :: "string \<Rightarrow> string option \<times> string" where
  "match_label_block r0 =
     (case r0 of
        [] \<Rightarrow> (None, r0)
      | b # r \<Rightarrow>
          if b = CHR ''{'' \<and> dropWhile not_rbrace r \<noteq> []
          then (Some (takeWhile not_rbrace r), tl (dropWhile not_rbrace r))
          else (None, r0))"

definition match_data :: "string \<Rightarrow> (string \<times> string option \<times> string) option" where
  "match_data s =
     (case s of
        [] \<Rightarrow> None
      | c # cs \<Rightarrow>
          if \<not> is_name_start c then None
          else
            (case match_label_block (dropWhile is_name_char cs) of
               (labelStr, r1) \<Rightarrow>
                 (case match_value_tail r1 of
                    None \<Rightarrow> None
                  | Some valueStr \<Rightarrow> Some (c # takeWhile is_name_char cs, labelStr, valueStr))))"

text \<open>
  The label loop \<open>while ((labelMatch = labelRegex.exec(labelStr)) !== null)\<close> with the
  global pattern: \<open>match_label_at\<close> tries the pattern at the start of the remaining
  string, \<open>scan_value\<close> being the quoted value up to the first unescaped double quote (a
  backslash takes the next character with it unless that is a line terminator);
  \<open>scan_labels\<close> moves one character on after a failure and behind the match after a
  success. Every match is shorter than the string it was found in, so the loop ends.
\<close>

fun scan_value :: "string \<Rightarrow> (string \<times> string) option" where
  "scan_value [] = None"
| "scan_value (c # cs) =
     (if c = dquote then Some ([], cs)
      else if c = backslash then
        (case cs of
           [] \<Rightarrow> None
         | d # ds \<Rightarrow>
             if is_line_terminator d then None
             else map_option (\<lambda>(v, r). (c # d # v, r)) (scan_value ds))
      else map_option (\<lambda>(v, r). (c # v, r)) (scan_value cs))"

definition match_label_at :: "string \<Rightarrow> (string \<times> string \<times> string) option" where
  "match_label_at s =
     (case s of
        [] \<Rightarrow> None
      | c # cs \<Rightarrow>
          if \<not> is_label_start c then None
          else
            (case dropWhile is_label_char cs of
               e # q # r \<Rightarrow>
                 if e = CHR ''='' \<and> q = dquote then
                   map_option (\<lambda>(v, rest). (c # takeWhile is_label_char cs, v, rest))
                     (scan_value r)
                 else None
             | _ \<Rightarrow> None))"

lemma scan_value_shorter: "scan_value s = Some (v, r) \<Longrightarrow> length r < length s"
proof (induction s arbitrary: v r rule: scan_value.induct)
  case 1
  then show ?case by simp
next
  case (2 c cs)
  then show ?case
    by (fastforce split: if_splits list.splits)
qed

lemma match_label_at_shorter:
  assumes "match_label_at s = Some (k, v, rest)"
  shows "length rest < length s"
proof -
  from assms obtain c cs r where s: "s = c # cs"
    and d: "dropWhile is_label_char cs = CHR ''='' # dquote # r"
    and sv: "scan_value r = Some (v, rest)"
    by (auto simp: match_label_at_def split: list.splits if_splits)
  have "length (dropWhile is_label_char cs) \<le> length cs"
    by (rule length_dropWhile_le)
  with d have "length r < length cs" by simp
  with scan_value_shorter [OF sv] s show ?thesis by simp
qed

function scan_labels :: "string \<Rightarrow> (string \<times> string) list" where
  "scan_labels s =
     (if s = [] then []
      else (case match_label_at s of
              Some (k, v, rest) \<Rightarrow> (k, v) # scan_labels rest
            | None \<Rightarrow> scan_labels (tl s)))"
  by pat_completeness auto
termination
proof (relation "measure length")
  fix s :: string and x2 k y v rest
  assume "match_label_at s = Some x2" "(k, y) = x2" "(v, rest) = y"
  then have "match_label_at s = Some (k, v, rest)" by simp
  then show "(rest, s) \<in> measure length"
    by (simp add: match_label_at_shorter)
qed (auto simp: neq_Nil_conv)

declare scan_labels.simps [simp del]

text \<open>
  The three \<open>replaceAll\<close> calls on a raw label value, in the order of the source, and
  \<open>labels[k] = v\<close> for every match: a repeated key keeps its place and takes the last
  value.
\<close>

definition unescape :: "string \<Rightarrow> string" where
  "unescape raw =
     replaceAll (replaceAll (replaceAll raw [backslash, dquote] [dquote])
                   [backslash, backslash] [backslash])
       [backslash, CHR ''n''] [newline]"

definition parse_labels :: "string option \<Rightarrow> (string \<times> string) list" where
  "parse_labels labelStr =
     (case labelStr of
        None \<Rightarrow> []
      | Some ls \<Rightarrow>
          if ls = [] then []
          else foldl (\<lambda>labels (k, raw). AList.update k (unescape raw) labels) [] (scan_labels ls))"

text \<open>The value of a sample: \<open>parseFloat\<close>, and the fallback when that gives NaN.\<close>

definition parse_value :: "string \<Rightarrow> jsnum" where
  "parse_value valueStr =
     (let v = parseFloat valueStr
      in if v = NaN then
           (if valueStr = ''+Inf'' \<or> valueStr = ''Inf'' then PInf
            else if valueStr = ''-Inf'' then NInf
            else Fin 0)
         else v)"

text \<open>
  One iteration of the loop over the lines in \<open>parsePrometheusMetrics\<close>: blank lines and
  lines starting with \<open>#\<close> are skipped, a line that matches yields its sample, any other
  line is skipped. \<open>push_sample\<close> is \<open>metrics.set(name, [])\<close> when the name is new,
  followed by \<open>metrics.get(name).push(...)\<close>.
\<close>

definition parse_line :: "string \<Rightarrow> (string \<times> sample) option" where
  "parse_line line =
     (let trimmed = trim line
      in if trimmed = [] \<or> startsWith trimmed ''#'' then None
         else (case match_data trimmed of
                 None \<Rightarrow> None
               | Some (name, labelStr, valueStr) \<Rightarrow>
                   Some (name, \<lparr>labels = parse_labels labelStr, value = parse_value valueStr\<rparr>)))"

definition push_sample :: "metrics \<Rightarrow> string \<Rightarrow> sample \<Rightarrow> metrics" where
  "push_sample m name smp =
     (let m' = (if map_of m name = None then m @ [(name, [])] else m)
      in AList.map_entry name (\<lambda>series. series @ [smp]) m')"

fun parse_lines :: "metrics \<Rightarrow> string list \<Rightarrow> metrics" where
  "parse_lines m [] = m"
| "parse_lines m (line # rest) =
     (case parse_line line of
        None \<Rightarrow> parse_lines m rest
      | Some (name, smp) \<Rightarrow> parse_lines (push_sample m name smp) rest)"

definition parsePrometheusMetrics :: "string \<Rightarrow> metrics" where
  "parsePrometheusMetrics text = parse_lines [] (split_nl text)"


subsection \<open>The parser with HELP/TYPE metadata\<close>

text \<open>
  \<open>parsePrometheusMetricsWithMetadata\<close> also keeps a map from metric names to
  \<open>{ help, type }\<close>. \<open>match_help\<close> is the pattern
  \<^verbatim>\<open>^#\s*HELP\s+([a-zA-Z_:][a-zA-Z0-9_:]*)\s+(.*)$\<close> and \<open>match_type\<close> the pattern
  \<^verbatim>\<open>^#\s*TYPE\s+([a-zA-Z_:][a-zA-Z0-9_:]*)\s+(counter|gauge|histogram|summary|untyped)$\<close>
  with the flag \<open>i\<close>, whose capture is stored in lower case. \<open>line_step\<close> is one
  iteration of the loop: HELP, then TYPE, then other comments, then data.
\<close>

record meta =
  "help" :: string
  "type" :: string

type_synonym metadata = "(string \<times> meta) list"

definition match_name_then_space :: "string \<Rightarrow> (string \<times> string) option" where
  "match_name_then_space s =
     (case s of
        [] \<Rightarrow> None
      | c # cs \<Rightarrow>
          if is_name_start c \<and> takeWhile is_space (dropWhile is_name_char cs) \<noteq> []
          then Some (c # takeWhile is_name_char cs, dropWhile is_space (dropWhile is_name_char cs))
          else None)"

definition match_help :: "string \<Rightarrow> (string \<times> string) option" where
  "match_help s =
     (case s of
        [] \<Rightarrow> None
      | h # r \<Rightarrow>
          (let r1 = dropWhile is_space r;
               r2 = drop 4 r1
           in if h = CHR ''#'' \<and> take 4 r1 = ''HELP'' \<and> takeWhile is_space r2 \<noteq> [] then
                (case match_name_then_space (dropWhile is_space r2) of
                   None \<Rightarrow> None
                 | Some (name, rest) \<Rightarrow>
                     if list_ex is_line_terminator rest then None else Some (name, rest))
              else None))"

definition ascii_upper :: "char \<Rightarrow> char" where
  "ascii_upper c = (if c \<in> set ''abcdefghijklmnopqrstuvwxyz'' then char_of (of_char c - (32::nat)) else c)"

definition ci_equal :: "string \<Rightarrow> string \<Rightarrow> bool" where
  "ci_equal a b \<longleftrightarrow> map ascii_upper a = map ascii_upper b"

definition match_type :: "string \<Rightarrow> (string \<times> string) option" where
  "match_type s =
     (case s of
        [] \<Rightarrow> None
      | h # r \<Rightarrow>
          (let r1 = dropWhile is_space r;
               r2 = drop 4 r1
           in if h = CHR ''#'' \<and> ci_equal (take 4 r1) ''TYPE'' \<and> takeWhile is_space r2 \<noteq> [] then
                (case match_name_then_space (dropWhile is_space r2) of
                   None \<Rightarrow> None
                 | Some (name, rest) \<Rightarrow>
                     (case filter (ci_equal rest)
                             [''counter'', ''gauge'', ''histogram'', ''summary'', ''untyped''] of
                        [] \<Rightarrow> None
                      | w # _ \<Rightarrow> Some (name, w)))
              else None))"

definition ensure_meta :: "metadata \<Rightarrow> string \<Rightarrow> metadata" where
  "ensure_meta md name =
     (if map_of md name = None then md @ [(name, \<lparr>help = [], type = ''untyped''\<rparr>)] else md)"

definition line_step :: "metrics \<times> metadata \<Rightarrow> string \<Rightarrow> metrics \<times> metadata" where
  "line_step st line =
     (case st of (m, md) \<Rightarrow>
        (let trimmed = trim line
         in if trimmed = [] then (m, md)
            else
              (case match_help trimmed of
                 Some (name, h) \<Rightarrow>
                   (m, AList.map_entry name (\<lambda>e. e\<lparr>help := h\<rparr>) (ensure_meta md name))
               | None \<Rightarrow>
                   (case match_type trimmed of
                      Some (name, t) \<Rightarrow>
                        (m, AList.map_entry name (\<lambda>e. e\<lparr>type := t\<rparr>) (ensure_meta md name))
                    | None \<Rightarrow>
                        if startsWith trimmed ''#'' then (m, md)
                        else
                          (case match_data trimmed of
                             None \<Rightarrow> (m, md)
                           | Some (name, labelStr, valueStr) \<Rightarrow>
                               (push_sample m name
                                  \<lparr>labels = parse_labels labelStr, value = parse_value valueStr\<rparr>,
                                md))))))"

definition parsePrometheusMetricsWithMetadata :: "string \<Rightarrow> metrics \<times> metadata" where
  "parsePrometheusMetricsWithMetadata text = foldl line_step ([], []) (split_nl text)"


section \<open>Distribution engine\<close>

text \<open>
  \<open>getGroupKey\<close>. The grouping argument is absent (\<open>None\<close>) or a string; an empty
  string is falsy like an absent one, and so is an empty label value.
\<close>

definition or_empty :: "string option \<Rightarrow> string" where
  "or_empty x = (case x of None \<Rightarrow> [] | Some v \<Rightarrow> v)"

definition getGroupKey :: "(string \<times> string) list \<Rightarrow> string option \<Rightarrow> string" where
  "getGroupKey lbls groupBy =
     (case groupBy of
        None \<Rightarrow> ''All''
      | Some g \<Rightarrow>
          if g = [] then ''All''
          else if g = ''method + path'' then
            (let m = or_empty (map_of lbls ''method'');
                 p = or_empty (map_of lbls ''path'')
             in if m \<noteq> [] \<and> p \<noteq> [] then m @ '' '' @ p
                else if m \<noteq> [] then m
                else if p \<noteq> [] then p
                else ''Other'')
          else (case map_of lbls g of
                  None \<Rightarrow> ''Other''
                | Some v \<Rightarrow> if v \<noteq> [] then v else ''Other''))"

text \<open>
  \<open>discoverDistributions\<close>: one pass over the entries of the snapshot with three sets,
  returned as sorted arrays (the default sort compares strings by code units).
\<close>

definition has_quantile :: "sample \<Rightarrow> bool" where
  "has_quantile s \<longleftrightarrow> map_of (labels s) ''quantile'' \<noteq> None"

definition discover_step ::
  "string list \<times> string list \<times> string list \<Rightarrow> string \<times> sample list
     \<Rightarrow> string list \<times> string list \<times> string list" where
  "discover_step acc entry =
     (case acc of (histograms, summaries, counters) \<Rightarrow>
        (case entry of (name, series) \<Rightarrow>
           if endsWith name ''_bucket''
           then (set_add histograms (replace_first name ''_bucket'' []), summaries, counters)
           else if list_ex has_quantile series
           then (histograms, set_add summaries name, counters)
           else (histograms, summaries, set_add counters name)))"

definition discoverDistributions :: "metrics \<Rightarrow> string list \<times> string list \<times> string list" where
  "discoverDistributions m =
     (case foldl discover_step ([], [], []) m of
        (histograms, summaries, counters) \<Rightarrow> (sort histograms, sort summaries, sort counters))"

text \<open>
  \<open>computeCounterBreakdown\<close>; \<open>add_to\<close> is the statement
  \<open>obj[k] = (obj[k] || 0) + v\<close>, and rows \<open>{ name, value }\<close> are pairs.
\<close>

definition add_to :: "(string \<times> jsnum) list \<Rightarrow> string \<Rightarrow> jsnum \<Rightarrow> (string \<times> jsnum) list" where
  "add_to obj k v = AList.update k (js_add (or0 (map_of obj k)) v) obj"



text \<open>
  \<open>computeHistogramData\<close>. A row is \<open>{ range, le, sortIndex }\<close> extended with one
  property per group, kept here as the list \<open>cells\<close> in the order of
  \<open>Object.keys(groups)\<close>. \<open>hist_step\<close> is the body of \<open>series.forEach\<close>,
  \<open>hist_row_at\<close> the body of \<open>sortedLe.map\<close>; indices stay below the length of the
  arrays, so no read is out of range.
\<close>

record hist_row =
  range :: string
  le :: jsnum
  sortIndex :: nat
  cells :: "(string \<times> jsnum) list"

type_synonym hist_groups = "(string \<times> (string \<times> jsnum) list) list"

definition hist_step ::
  "string option \<Rightarrow> hist_groups \<times> string list \<Rightarrow> sample \<Rightarrow> hist_groups \<times> string list" where
  "hist_step groupBy acc item =
     (case acc of (groups, allLe) \<Rightarrow>
        (case map_of (labels item) ''le'' of
           None \<Rightarrow> (groups, allLe)
         | Some leStr \<Rightarrow>
             if leStr = [] then (groups, allLe)
             else
               (let groupKey = getGroupKey (labels item) groupBy;
                    groups' = (if map_of groups groupKey = None then groups @ [(groupKey, [])]
                               else groups)
                in (AList.map_entry groupKey (\<lambda>g. add_to g leStr (value item)) groups',
                    set_add allLe leStr))))"

definition le_number :: "string \<Rightarrow> jsnum" where
  "le_number l = (if l = ''+Inf'' then PInf else parseFloat l)"

definition le_string :: "jsnum \<Rightarrow> string" where
  "le_string l = (if l = PInf then ''+Inf'' else num_toString l)"

definition ascending :: "jsnum \<Rightarrow> jsnum \<Rightarrow> jsnum" where
  "ascending a b = js_sub a b"

definition hist_row_at :: "hist_groups \<Rightarrow> jsnum list \<Rightarrow> string list \<Rightarrow> nat \<Rightarrow> hist_row" where
  "hist_row_at groups sortedLe sortedLeStr idx =
     (let leVal = sortedLe ! idx;
          leStr = sortedLeStr ! idx;
          prevLeLabel = (if idx = 0 then ''0'' else sortedLeStr ! (idx - 1));
          rangeLabel =
            (if leVal = PInf then ''> '' @ prevLeLabel @ ''s''
             else if idx = 0 then ''< '' @ leStr @ ''s''
             else prevLeLabel @ ''-'' @ leStr @ ''s'')
      in \<lparr>range = rangeLabel, le = leVal, sortIndex = idx,
          cells = map (\<lambda>(gKey, g).
                     (let currVal = or0 (map_of g leStr);
                          prevVal = (if idx > 0 then or0 (map_of g (sortedLeStr ! (idx - 1)))
                                     else Fin 0)
                      in (gKey, js_max (Fin 0) (js_sub currVal prevVal))))
                   (js_entries groups)\<rparr>)"

definition computeHistogramData ::
  "metrics \<Rightarrow> string \<Rightarrow> string option \<Rightarrow> hist_row list \<times> string list" where
  "computeHistogramData m baseName groupBy =
     (case map_of m (baseName @ ''_bucket'') of
        None \<Rightarrow> ([], [])
      | Some series \<Rightarrow>
          (case foldl (hist_step groupBy) ([], []) series of
             (groups, allLe) \<Rightarrow>
               (let sortedLe = js_sort ascending (map le_number allLe);
                    sortedLeStr = map le_string sortedLe;
                    rows = map (hist_row_at groups sortedLe sortedLeStr) [0..<length sortedLe]
                in (filter (\<lambda>r. list_ex (\<lambda>kv. js_gt (snd kv) (Fin 0)) (cells r)) rows,
                    js_keys groups))))"
















section \<open>Snapshot history\<close>

text \<open>
  Both writers of the snapshot history keep it as an array held in component state.
  The polling path (\<open>fetchMetrics\<close>) builds \<open>[...prev, entry]\<close> and returns
  \<open>newHistory.slice(-60)\<close> only when the new length exceeds 60; the manual path
  (\<open>handleManualParse\<close>) always returns \<open>[...prev, entry].slice(-60)\<close>.
  \<open>slice(-60)\<close> starts at index \<open>max (length - 60) 0\<close>, which on naturals is the
  truncating subtraction.
\<close>

definition slice_last :: "nat \<Rightarrow> 'a list \<Rightarrow> 'a list" where
  "slice_last n xs = drop (length xs - n) xs"

definition fetch_append :: "'a list \<Rightarrow> 'a \<Rightarrow> 'a list" where
  "fetch_append prev e =
     (let newHistory = prev @ [e]
      in if length newHistory > 60 then slice_last 60 newHistory else newHistory)"

definition manual_append :: "'a list \<Rightarrow> 'a \<Rightarrow> 'a list" where
  "manual_append prev e = slice_last 60 (prev @ [e])"

text \<open>The histories that the two writers can produce from the initial empty array.\<close>

inductive reachable_history :: "'a list \<Rightarrow> bool" where
  init: "reachable_history []"
| fetch: "reachable_history h \<Longrightarrow> reachable_history (fetch_append h e)"
| manual: "reachable_history h \<Longrightarrow> reachable_history (manual_append h e)"

lemma fetch_append_eq_manual: "fetch_append h e = manual_append h e"
  by (simp add: fetch_append_def manual_append_def slice_last_def Let_def)

lemma manual_append_length: "length h \<le> 60 \<Longrightarrow> length (manual_append h e) \<le> 60"
  by (simp add: manual_append_def slice_last_def)

lemma reachable_history_bounded: "reachable_history h \<Longrightarrow> length h \<le> 60"
  by (induction rule: reachable_history.induct)
     (simp_all add: fetch_append_eq_manual manual_append_length)

lemma manual_append_full: "length h = 60 \<Longrightarrow> manual_append h e = tl h @ [e]"
  by (cases h) (simp_all add: manual_append_def slice_last_def)

lemma manual_append_below: "length h < 60 \<Longrightarrow> manual_append h e = h @ [e]"
  by (simp add: manual_append_def slice_last_def)

text \<open>
  Claim C5. The history never holds more than 60 entries: every history reachable from
  the empty one through polling or manual appends has length at most 60; an append (by
  either writer) onto 60 entries drops exactly the oldest entry and keeps the remaining
  ones in order followed by the new one; an append onto fewer than 60 entries keeps all
  of them unchanged and adds the new one at the end.
\<close>

theorem history_capacity:
  "(reachable_history h \<longrightarrow> length h \<le> 60) \<and>
   (length h = 60 \<longrightarrow>
      fetch_append h e = tl h @ [e] \<and> manual_append h e = tl h @ [e] \<and>
      length (fetch_append h e) = 60) \<and>
   (length h < 60 \<longrightarrow>
      fetch_append h e = h @ [e] \<and> manual_append h e = h @ [e])"
proof (intro conjI impI)
  assume "length h = 60"
  then show "length (fetch_append h e) = 60"
    by (simp add: fetch_append_eq_manual manual_append_full)
qed (simp_all add: reachable_history_bounded fetch_append_eq_manual
       manual_append_full manual_append_below)

theorem history_capacity_witness:
  "length [0..<60] = 60 \<and>
   fetch_append [0..<60] 60 = [1..<61] \<and>
   manual_append [0..<60] 60 = [1..<61] \<and>
   length [7, 8 :: nat] < 60 \<and> fetch_append [7, 8] (9::nat) = [7, 8, 9] \<and>
   manual_append [7, 8] (9::nat) = [7, 8, 9] \<and>
   reachable_history (manual_append (fetch_append [] (1::nat)) 2) \<and>
   length (manual_append (fetch_append [] (1::nat)) 2) \<le> 60"
proof -
  have shifted: "tl [0..<60] @ [60] = [1..<61]"
    by code_simp
  show ?thesis
    using history_capacity [of "[0..<60]" 60] shifted
          history_capacity [of "[7, 8 :: nat]" 9]
          history_capacity [of "manual_append (fetch_append [] (1::nat)) 2"]
    by (simp add: reachable_history.intros)
qed

section \<open>Properties of the parser\<close>

definition line_samples :: "string list \<Rightarrow> string \<Rightarrow> sample list" where
  "line_samples ls name = map snd (filter (\<lambda>p. fst p = name) (List.map_filter parse_line ls))"

lemma map_of_push_sample:
  "map_of (push_sample m name smp) n =
     (if n = name then Some ((case map_of m name of None \<Rightarrow> [] | Some ss \<Rightarrow> ss) @ [smp])
      else map_of m n)"
  by (auto simp: push_sample_def Let_def map_of_map_entry map_add_def split: option.splits)

lemma line_samples_Nil: "line_samples [] name = []"
  by (simp add: line_samples_def)

lemma line_samples_Cons:
  "line_samples (l # ls) name =
     (case parse_line l of
        None \<Rightarrow> line_samples ls name
      | Some (n, s) \<Rightarrow> if n = name then s # line_samples ls name else line_samples ls name)"
  by (auto simp: line_samples_def split: option.splits)

lemma map_of_parse_lines:
  "map_of (parse_lines m ls) name =
     (if line_samples ls name = [] then map_of m name
      else Some ((case map_of m name of None \<Rightarrow> [] | Some ss \<Rightarrow> ss) @ line_samples ls name))"
proof (induction ls arbitrary: m)
  case Nil
  then show ?case by (simp add: line_samples_Nil)
next
  case (Cons l ls)
  show ?case
  proof (cases "parse_line l")
    case None
    then show ?thesis using Cons.IH [of m] by (simp add: line_samples_Cons)
  next
    case (Some p)
    obtain n s where p: "p = (n, s)" by (cases p)
    show ?thesis
      using Cons.IH [of "push_sample m n s"] Some p
      by (auto simp: line_samples_Cons map_of_push_sample split: option.splits)
  qed
qed

lemma match_help_hash: "match_help t = Some r \<Longrightarrow> startsWith t ''#''"
  by (auto simp: match_help_def startsWith_def Let_def split: list.splits if_splits)

lemma match_type_hash: "match_type t = Some r \<Longrightarrow> startsWith t ''#''"
  by (auto simp: match_type_def startsWith_def Let_def split: list.splits if_splits)

lemma fst_line_step:
  "fst (line_step (m, md) line) =
     (case parse_line line of None \<Rightarrow> m | Some (name, smp) \<Rightarrow> push_sample m name smp)"
proof (cases "match_help (trim line)")
  case None
  note nh = None
  show ?thesis
  proof (cases "match_type (trim line)")
    case None
    with nh show ?thesis
      by (auto simp: line_step_def parse_line_def Let_def split: option.splits)
  next
    case (Some r)
    with nh match_type_hash [OF Some] show ?thesis
      by (auto simp: line_step_def parse_line_def Let_def split: option.splits prod.splits)
  qed
next
  case (Some r)
  with match_help_hash [OF Some] show ?thesis
    by (auto simp: line_step_def parse_line_def Let_def split: option.splits prod.splits)
qed

lemma fst_foldl_line_step: "fst (foldl line_step (m, md) ls) = parse_lines m ls"
proof (induction ls arbitrary: m md)
  case Nil
  then show ?case by simp
next
  case (Cons l ls)
  obtain m' md' where st: "line_step (m, md) l = (m', md')" by (cases "line_step (m, md) l")
  have "m' = (case parse_line l of None \<Rightarrow> m | Some (name, smp) \<Rightarrow> push_sample m name smp)"
    using fst_line_step [of m md l] st by simp
  then show ?case using Cons.IH [of m' md'] st
    by (auto split: option.splits)
qed

lemma parse_lines_skip:
  "parse_line bad = None \<Longrightarrow> parse_lines m (ls1 @ bad # ls2) = parse_lines m (ls1 @ ls2)"
  by (induction ls1 arbitrary: m) (auto split: option.splits)

lemma split_nl_nonempty: "split_nl s \<noteq> []"
  by (induction s) (auto split: list.splits)

lemma split_nl_append: "split_nl (a @ newline # b) = split_nl a @ split_nl b"
  by (induction a) (auto split: list.splits simp: split_nl_nonempty)

lemma split_nl_single: "newline \<notin> set s \<Longrightarrow> split_nl s = [s]"
  by (induction s) (auto split: list.splits)

text \<open>
  Claim C1. Parsing is total (both parsers are structural recursions over the lines of the
  input and contain no failing operation), and it is local to each line: the series stored
  under a metric name is exactly the sequence of samples of the lines that parse to that
  name, in input order, so a line that does not parse contributes nothing and changes no
  other line's sample; the parser with metadata stores the same series; removing a line that
  does not parse leaves the result unchanged; and the line \<open>weird_metric{bad\<close> does
  not parse.
\<close>

theorem parser_skips_malformed_lines:
  "map_of (parsePrometheusMetrics text) name =
     (if line_samples (split_nl text) name = [] then None
      else Some (line_samples (split_nl text) name)) \<and>
   fst (parsePrometheusMetricsWithMetadata text) = parsePrometheusMetrics text \<and>
   (newline \<notin> set bad \<and> parse_line bad = None \<longrightarrow>
      parsePrometheusMetrics (before @ newline # bad @ newline # after)
        = parsePrometheusMetrics (before @ newline # after)) \<and>
   parse_line ''weird_metric{bad'' = None"
proof (intro conjI impI)
  show "map_of (parsePrometheusMetrics text) name =
     (if line_samples (split_nl text) name = [] then None
      else Some (line_samples (split_nl text) name))"
    by (simp add: parsePrometheusMetrics_def map_of_parse_lines)
  show "fst (parsePrometheusMetricsWithMetadata text) = parsePrometheusMetrics text"
    by (simp add: parsePrometheusMetricsWithMetadata_def parsePrometheusMetrics_def
        fst_foldl_line_step)
  show "parse_line ''weird_metric{bad'' = None"
    by code_simp
next
  assume a: "newline \<notin> set bad \<and> parse_line bad = None"
  have "split_nl (before @ newline # bad @ newline # after)
          = split_nl before @ bad # split_nl after"
    using a by (simp add: split_nl_append split_nl_single)
  then show "parsePrometheusMetrics (before @ newline # bad @ newline # after)
        = parsePrometheusMetrics (before @ newline # after)"
    using a by (simp add: parsePrometheusMetrics_def parse_lines_skip split_nl_append)
qed

theorem parser_skips_malformed_lines_witness:
  "newline \<notin> set ''weird_metric{bad'' \<and> parse_line ''weird_metric{bad'' = None \<and>
   parsePrometheusMetrics (''up 1'' @ newline # ''weird_metric{bad'' @ newline # ''ok 2'')
     = [(''up'', [\<lparr>labels = [], value = Fin 1\<rparr>]), (''ok'', [\<lparr>labels = [], value = Fin 2\<rparr>])]"
proof -
  note t = parser_skips_malformed_lines [of _ _ "''weird_metric{bad''" "''up 1''" "''ok 2''"]
  have nl: "newline \<notin> set ''weird_metric{bad''" by simp
  have bad: "parse_line ''weird_metric{bad'' = None" using t by blast
  have "parsePrometheusMetrics (''up 1'' @ newline # ''weird_metric{bad'' @ newline # ''ok 2'')
          = parsePrometheusMetrics (''up 1'' @ newline # ''ok 2'')"
    using t nl bad by blast
  also have "\<dots> = [(''up'', [\<lparr>labels = [], value = Fin 1\<rparr>]),
                    (''ok'', [\<lparr>labels = [], value = Fin 2\<rparr>])]"
    by code_simp
  finally show ?thesis using nl bad by blast
qed



















text \<open>
  The round trip of claim C2 needs the text of a sample. The program has no serialiser, so
  this one follows the words of the claim and the exposition format: a label value is
  written between double quotes with a backslash before every backslash and double quote
  and with \<open>\n\<close> for a line feed; the pairs are separated by commas inside braces,
  after the name and before a space and the value token.
\<close>

definition spec_escape :: "string \<Rightarrow> string" where
  "spec_escape v =
     concat (map (\<lambda>c. if c = backslash then [backslash, backslash]
                      else if c = dquote then [backslash, dquote]
                      else if c = newline then [backslash, CHR ''n'']
                      else [c]) v)"

fun join_comma :: "string list \<Rightarrow> string" where
  "join_comma [] = []"
| "join_comma [x] = x"
| "join_comma (x # y # ys) = x @ '','' @ join_comma (y # ys)"

definition spec_serialize :: "string \<Rightarrow> (string \<times> string) list \<Rightarrow> string \<Rightarrow> string" where
  "spec_serialize name lbls tok =
     name @ (if lbls = [] then []
             else ''{'' @ join_comma (map (\<lambda>(k, v). k @ ''='' @ [dquote] @ spec_escape v @ [dquote]) lbls) @ ''}'')
       @ '' '' @ tok"


text \<open>
  Claim C2 at the label value made of a backslash followed by the letter n. Its exposition
  text is \<open>m{a="\\n"} 1\<close> (the backslash doubled); the parser returns a label value
  that is a single newline, not the original two characters.
\<close>

theorem roundtrip_backslash_n:
  "spec_serialize ''m'' [(''a'', [backslash, CHR ''n''])] ''1''
     = ''m{a='' @ [dquote, backslash, backslash, CHR ''n'', dquote] @ ''} 1'' \<and>
   parse_line (spec_serialize ''m'' [(''a'', [backslash, CHR ''n''])] ''1'')
     = Some (''m'', \<lparr>labels = [(''a'', [newline])], value = Fin 1\<rparr>) \<and>
   [newline] \<noteq> [backslash, CHR ''n'']"
  by code_simp



text \<open>
  Claim C7 at the metric name \<open>s3_bucket_size_bucket\<close>: the name ends in
  \<open>_bucket\<close>, yet the base name computed is \<open>s3_size_bucket\<close> (the first occurrence
  of \<open>_bucket\<close> is removed, not the suffix), and the histogram reconstruction finds no
  series under that base name.
\<close>

theorem discover_histogram_base_name:
  "parsePrometheusMetrics (''s3_bucket_size_bucket{le='' @ [dquote] @ ''1'' @ [dquote] @ ''} 4'')
     = [(''s3_bucket_size_bucket'', [\<lparr>labels = [(''le'', ''1'')], value = Fin 4\<rparr>])] \<and>
   endsWith ''s3_bucket_size_bucket'' ''_bucket'' \<and>
   discoverDistributions
       [(''s3_bucket_size_bucket'', [\<lparr>labels = [(''le'', ''1'')], value = Fin 4\<rparr>])]
     = ([''s3_size_bucket''], [], []) \<and>
   ''s3_size_bucket'' \<noteq> ''s3_bucket_size'' \<and>
   computeHistogramData
       [(''s3_bucket_size_bucket'', [\<lparr>labels = [(''le'', ''1'')], value = Fin 4\<rparr>])]
       ''s3_size_bucket'' None = ([], [])"
  by code_simp


section \<open>Printing and reading numbers\<close>

text \<open>
  A number that was read by \<open>parseFloat\<close>, or such a number times 100, is printed by
  \<open>toString\<close> in a form that \<open>parseFloat\<close> reads back as the same number. The proof
  follows the three steps of the conversion: the digits of an integer, the digits and the
  exponent of a rational with a finite decimal expansion, and the four print formats.
\<close>

subsection \<open>Digits of an integer\<close>















subsection \<open>Reading a decimal literal\<close>












subsection \<open>The print formats\<close>









subsection \<open>Digits and exponent of a finite decimal\<close>






subsection \<open>Reading back a printed number\<close>













section \<open>Properties of the distribution engine\<close>

subsection \<open>Sorting with a comparator\<close>














subsection \<open>Own keys of an object\<close>

lemma set_js_entries: "set (js_entries obj) = set obj"
  by (auto simp: js_entries_def)

lemma distinct_map_sort_key: "distinct (map f (sort_key k xs)) = distinct (map f xs)"
  by (simp add: distinct_map)

lemma distinct_js_entries:
  assumes "distinct (map fst obj)"
  shows "distinct (map fst (js_entries obj))"
proof -
  have "distinct (map fst (filter (\<lambda>kv. is_array_index (fst kv)) obj))"
    and "distinct (map fst (filter (\<lambda>kv. \<not> is_array_index (fst kv)) obj))"
    using assms by (simp_all add: distinct_map_filter)
  then show ?thesis
    by (auto simp: js_entries_def distinct_map_sort_key)
qed

lemma map_of_js_entries:
  assumes "distinct (map fst obj)"
  shows "map_of (js_entries obj) = map_of obj"
proof (rule ext)
  fix k
  show "map_of (js_entries obj) k = map_of obj k"
  proof (cases "map_of obj k")
    case None
    then have "k \<notin> fst ` set (js_entries obj)"
      by (simp add: set_js_entries map_of_eq_None_iff)
    then have "map_of (js_entries obj) k = None"
      by (simp only: map_of_eq_None_iff not_False_eq_True)
    with None show ?thesis by simp
  next
    case (Some v)
    then have "(k, v) \<in> set (js_entries obj)"
      by (simp add: set_js_entries map_of_SomeD)
    then show ?thesis
      using Some distinct_js_entries [OF assms] by simp
  qed
qed

subsection \<open>Accumulating a value per key\<close>







































subsection \<open>Counter and gauge breakdown\<close>












subsection \<open>Summary widgets\<close>




























subsection \<open>Histogram reconstruction\<close>



















































end
